theory Spec2Isabelle
  imports Complex_Main "HOL-Library.AList"
begin

section \<open>Python values\<close>

text \<open>
  The scripts handle decoded JSON: \<open>None\<close>, booleans, integers, strings, lists and
  dictionaries. A dictionary is an association list in which the first binding of a key
  is the one that counts. JSON numbers with a fraction do not occur in the payloads the
  scripts read (CometBFT sends integers, and large integers as strings) and have no
  constructor.
\<close>

datatype json =
    JNull
  | JBool bool
  | JInt int
  | JStr string
  | JList "json list"
  | JDict "(string \<times> json) list"

datatype exn =
    KeyError
  | TypeError
  | AttributeError
  | ValueError
  | ZeroDivisionError
  | RequestException
  | HTTPError
  | DatabaseError
  | SystemExit
  | RecursionError

type_synonym pydict = "(string \<times> json) list"

text \<open>What a script does to the outside, in the order in which it does it: an HTTP
  request, \<open>time.sleep\<close> of some seconds, a call of \<open>ingest_blocks\<close> on a range.\<close>

datatype effect =
    Request
  | Sleep nat
  | Ingest int int

definition bindE :: "exn + 'a \<Rightarrow> ('a \<Rightarrow> exn + 'b) \<Rightarrow> exn + 'b" where
  "bindE m f = (case m of Inl e \<Rightarrow> Inl e | Inr x \<Rightarrow> f x)"

text \<open>\<open>d.get(k, default)\<close> on a dictionary.\<close>

definition dict_get :: "pydict \<Rightarrow> string \<Rightarrow> json \<Rightarrow> json" where
  "dict_get d k dflt = (case map_of d k of Some v \<Rightarrow> v | None \<Rightarrow> dflt)"

text \<open>\<open>x.get(k, default)\<close> on any value: only a dictionary has the method.\<close>

fun py_get :: "json \<Rightarrow> string \<Rightarrow> json \<Rightarrow> exn + json" where
  "py_get (JDict d) k dflt = Inr (dict_get d k dflt)"
| "py_get _ k dflt = Inl AttributeError"

text \<open>\<open>x[k]\<close> with a string key: a missing key raises, and so does a value that is not a
  dictionary (lists and strings take integer indices).\<close>

fun py_getitem :: "json \<Rightarrow> string \<Rightarrow> exn + json" where
  "py_getitem (JDict d) k = (case map_of d k of Some v \<Rightarrow> Inr v | None \<Rightarrow> Inl KeyError)"
| "py_getitem _ k = Inl TypeError"

fun contains_sub :: "string \<Rightarrow> string \<Rightarrow> bool" where
  "contains_sub k [] = (k = [])"
| "contains_sub k (c # s) = (take (length k) (c # s) = k \<or> contains_sub k s)"

text \<open>\<open>k in x\<close> for a string \<open>k\<close>: a key of a dictionary, an element of a list, a
  substring of a string; the test raises on \<open>None\<close>, booleans and integers.\<close>

fun py_in :: "string \<Rightarrow> json \<Rightarrow> exn + bool" where
  "py_in k (JDict d) = Inr (k \<in> fst ` set d)"
| "py_in k (JList xs) = Inr (JStr k \<in> set xs)"
| "py_in k (JStr s) = Inr (contains_sub k s)"
| "py_in k _ = Inl TypeError"

text \<open>Truth value of a value, as \<open>if x\<close> and \<open>not x\<close> take it.\<close>

fun py_truthy :: "json \<Rightarrow> bool" where
  "py_truthy JNull = False"
| "py_truthy (JBool b) = b"
| "py_truthy (JInt n) = (n \<noteq> 0)"
| "py_truthy (JStr s) = (s \<noteq> [])"
| "py_truthy (JList xs) = (xs \<noteq> [])"
| "py_truthy (JDict d) = (d \<noteq> [])"

text \<open>Iteration: a list gives its elements, a dictionary its keys, a string its
  characters; anything else is not iterable.\<close>

fun py_iter :: "json \<Rightarrow> exn + json list" where
  "py_iter (JList xs) = Inr xs"
| "py_iter (JDict d) = Inr (map (\<lambda>(k, v). JStr k) d)"
| "py_iter (JStr s) = Inr (map (\<lambda>c. JStr [c]) s)"
| "py_iter _ = Inl TypeError"

fun py_len :: "json \<Rightarrow> exn + nat" where
  "py_len (JList xs) = Inr (length xs)"
| "py_len (JDict d) = Inr (length d)"
| "py_len (JStr s) = Inr (length s)"
| "py_len _ = Inl TypeError"

text \<open>\<open>x > n\<close> against an integer: booleans count as 0 and 1, every other kind of
  value raises.\<close>

fun py_gt_int :: "json \<Rightarrow> int \<Rightarrow> exn + bool" where
  "py_gt_int (JInt m) n = Inr (m > n)"
| "py_gt_int (JBool b) n = Inr ((if b then 1 else 0) > n)"
| "py_gt_int _ n = Inl TypeError"

text \<open>\<open>x == y\<close>: a boolean equals the integer it counts as; other values are compared
  by structure.\<close>

fun py_eq :: "json \<Rightarrow> json \<Rightarrow> bool" where
  "py_eq (JBool b) (JInt n) = ((if b then 1 else 0) = n)"
| "py_eq (JInt n) (JBool b) = ((if b then 1 else 0) = n)"
| "py_eq x y = (x = y)"

subsection \<open>\<open>int(x)\<close>\<close>

definition is_digit :: "char \<Rightarrow> bool" where
  "is_digit c = (48 \<le> (of_char c :: nat) \<and> (of_char c :: nat) \<le> 57)"

definition digit_val :: "char \<Rightarrow> nat" where
  "digit_val c = of_char c - 48"

definition digit_char :: "nat \<Rightarrow> char" where
  "digit_char n = char_of (48 + n)"

definition digits_val :: "string \<Rightarrow> nat" where
  "digits_val s = foldl (\<lambda>acc c. 10 * acc + digit_val c) 0 s"

definition is_space :: "char \<Rightarrow> bool" where
  "is_space c = ((of_char c :: nat) = 32 \<or> (9 \<le> (of_char c :: nat) \<and> (of_char c :: nat) \<le> 13))"

definition strip :: "string \<Rightarrow> string" where
  "strip s = rev (dropWhile is_space (rev (dropWhile is_space s)))"

text \<open>The digits of an integer literal: groups of digits, with single underscores
  allowed between digits.\<close>

fun literal_digits :: "string \<Rightarrow> string option" where
  "literal_digits [] = None"
| "literal_digits [c] = (if is_digit c then Some [c] else None)"
| "literal_digits (c # d # s) =
     (if is_digit c then
        (if d = CHR ''_'' then map_option (\<lambda>r. c # r) (literal_digits s)
         else map_option (\<lambda>r. c # r) (literal_digits (d # s)))
      else None)"

definition int_of_string :: "string \<Rightarrow> exn + int" where
  "int_of_string s =
     (let t = strip s;
          (neg, body) = (case t of
               c # r \<Rightarrow> if c = CHR ''-'' then (True, r)
                        else if c = CHR ''+'' then (False, r) else (False, t)
             | [] \<Rightarrow> (False, t))
      in case literal_digits body of
           None \<Rightarrow> Inl ValueError
         | Some ds \<Rightarrow> Inr (if neg then - int (digits_val ds) else int (digits_val ds)))"

fun py_int :: "json \<Rightarrow> exn + int" where
  "py_int (JInt n) = Inr n"
| "py_int (JBool b) = Inr (if b then 1 else 0)"
| "py_int (JStr s) = int_of_string s"
| "py_int _ = Inl TypeError"

section \<open>Fetcher: \<open>fetch_block_data\<close>\<close>

text \<open>
  What \<open>session.get\<close> gives for one request, after the adapter's retries: the call
  raises (connection error, timeout, retries exhausted), or it returns a response with
  a status code and a body, which decodes as JSON or does not.
\<close>

datatype http_result =
    RequestFailed
  | Response nat "json option"

record rpc =
  get_block :: "int \<Rightarrow> http_result"
  get_validators :: "int \<Rightarrow> http_result"

text \<open>\<open>response.raise_for_status()\<close> followed by \<open>response.json()\<close>.\<close>

fun checked_json :: "http_result \<Rightarrow> exn + json" where
  "checked_json RequestFailed = Inl RequestException"
| "checked_json (Response st body) =
     (if 400 \<le> st \<and> st < 600 then Inl HTTPError
      else case body of None \<Rightarrow> Inl ValueError | Some j \<Rightarrow> Inr j)"

text \<open>The loop over the validator set: the first validator whose address equals the
  proposer's gives the voting power and the priority; with no match both stay 0.\<close>

fun find_proposer :: "json \<Rightarrow> json list \<Rightarrow> exn + (int \<times> int)" where
  "find_proposer proposer_address [] = Inr (0, 0)"
| "find_proposer proposer_address (validator # rest) =
     bindE (py_get validator ''address'' JNull) (\<lambda>addr.
       if py_eq addr proposer_address then
         bindE (bindE (py_get validator ''voting_power'' (JInt 0)) py_int) (\<lambda>vp.
         bindE (bindE (py_get validator ''proposer_priority'' (JInt 0)) py_int) (\<lambda>pp.
           Inr (vp, pp)))
       else find_proposer proposer_address rest)"

definition proposer_power :: "json \<Rightarrow> json \<Rightarrow> exn + (int \<times> int)" where
  "proposer_power val_result proposer_address =
     bindE (py_in ''result'' val_result) (\<lambda>has_result.
       if has_result then
         bindE (py_getitem val_result ''result'') (\<lambda>r.
         bindE (py_get r ''validators'' (JList [])) (\<lambda>validators.
         bindE (py_iter validators) (\<lambda>vs. find_proposer proposer_address vs)))
       else Inr (0, 0))"

text \<open>The generator expression that counts the valid signatures: one test per entry.\<close>

fun sig_counts :: "json \<Rightarrow> exn + bool" where
  "sig_counts (JDict d) =
     bindE (py_gt_int (dict_get d ''block_id_flag'' (JInt 0)) 1) (\<lambda>gt.
       Inr (gt \<and> py_truthy (dict_get d ''signature'' JNull)))"
| "sig_counts _ = Inr False"

fun count_valid :: "json list \<Rightarrow> exn + nat" where
  "count_valid [] = Inr 0"
| "count_valid (s # rest) =
     bindE (sig_counts s) (\<lambda>b.
     bindE (count_valid rest) (\<lambda>n. Inr (if b then Suc n else n)))"

definition valid_signatures :: "json \<Rightarrow> exn + nat" where
  "valid_signatures last_commit =
     bindE (py_get last_commit ''signatures'' (JList [])) (\<lambda>sigs.
     bindE (py_iter sigs) count_valid)"

text \<open>\<open>x.get(k1, {}).get(k2, default)\<close>.\<close>

definition get2 :: "json \<Rightarrow> string \<Rightarrow> string \<Rightarrow> json \<Rightarrow> exn + json" where
  "get2 x k1 k2 dflt = bindE (py_get x k1 (JDict [])) (\<lambda>y. py_get y k2 dflt)"

definition hdr :: "json \<Rightarrow> string \<Rightarrow> exn + json" where
  "hdr header k = py_get header k (JStr [])"

text \<open>The dictionary the function returns, key by key in the order of the source.\<close>

definition block_dict ::
  "json \<Rightarrow> json \<Rightarrow> json \<Rightarrow> json \<Rightarrow> json \<Rightarrow> json \<Rightarrow> int \<Rightarrow> int \<Rightarrow> nat \<Rightarrow> exn + pydict" where
  "block_dict result header last_commit txs evidence proposer_address
      proposer_voting_power proposer_priority valid =
     bindE (bindE (py_get header ''height'' (JInt 0)) py_int) (\<lambda>height.
     bindE (get2 result ''block_id'' ''hash'' (JStr [])) (\<lambda>hash.
     bindE (hdr header ''time'') (\<lambda>time.
     bindE (hdr header ''chain_id'') (\<lambda>chain_id.
     bindE (py_len txs) (\<lambda>num_txs.
     bindE (py_len evidence) (\<lambda>num_evidence.
     bindE (bindE (py_get last_commit ''round'' (JInt 0)) py_int) (\<lambda>last_commit_round.
     bindE (get2 header ''last_block_id'' ''hash'' (JStr [])) (\<lambda>last_block_id.
     bindE (hdr header ''validators_hash'') (\<lambda>validators_hash.
     bindE (hdr header ''next_validators_hash'') (\<lambda>next_validators_hash.
     bindE (hdr header ''consensus_hash'') (\<lambda>consensus_hash.
     bindE (hdr header ''app_hash'') (\<lambda>app_hash.
     bindE (hdr header ''last_results_hash'') (\<lambda>last_results_hash.
     bindE (hdr header ''evidence_hash'') (\<lambda>evidence_hash.
     bindE (hdr header ''last_commit_hash'') (\<lambda>last_commit_hash.
     bindE (hdr header ''data_hash'') (\<lambda>data_hash.
     bindE (bindE (py_get last_commit ''signatures'' (JList [])) py_len) (\<lambda>total_signatures.
     bindE (get2 header ''version'' ''block'' (JStr [])) (\<lambda>version.
     bindE (bindE (get2 result ''block_id'' ''parts'' (JDict []))
              (\<lambda>p. py_get p ''total'' (JInt 0))) (\<lambda>parts_total.
     bindE (bindE (get2 result ''block_id'' ''parts'' (JDict []))
              (\<lambda>p. py_get p ''hash'' (JStr []))) (\<lambda>parts_hash.
       Inr [(''height'', JInt height),
            (''hash'', hash),
            (''time'', time),
            (''proposer_address'', proposer_address),
            (''chain_id'', chain_id),
            (''num_txs'', JInt (int num_txs)),
            (''num_evidence'', JInt (int num_evidence)),
            (''total_gas_wanted'', JInt 0),
            (''total_gas_used'', JInt 0),
            (''total_fee'', JStr ''0''),
            (''last_commit_round'', JInt last_commit_round),
            (''last_block_id'', last_block_id),
            (''validators_hash'', validators_hash),
            (''next_validators_hash'', next_validators_hash),
            (''consensus_hash'', consensus_hash),
            (''app_hash'', app_hash),
            (''last_results_hash'', last_results_hash),
            (''evidence_hash'', evidence_hash),
            (''last_commit_hash'', last_commit_hash),
            (''data_hash'', data_hash),
            (''valid_signatures'', JInt (int valid)),
            (''total_signatures'', JInt (int total_signatures)),
            (''version'', version),
            (''parts_total'', parts_total),
            (''parts_hash'', parts_hash),
            (''total_voting_power'', JInt proposer_voting_power),
            (''proposer_priority'', JInt proposer_priority)]))))))))))))))))))))"

text \<open>The part of the function after the block has been found in the first response:
  the second round trip, the proposer lookup, the signature count, the dictionary.\<close>

definition fetch_rest :: "rpc \<Rightarrow> int \<Rightarrow> json \<Rightarrow> json \<Rightarrow> exn + pydict" where
  "fetch_rest r height result block =
     bindE (py_get block ''header'' (JDict [])) (\<lambda>header.
     bindE (py_get block ''last_commit'' (JDict [])) (\<lambda>last_commit.
     bindE (get2 block ''data'' ''txs'' (JList [])) (\<lambda>txs.
     bindE (get2 block ''evidence'' ''evidence'' (JList [])) (\<lambda>evidence.
     bindE (checked_json (get_validators r height)) (\<lambda>val_result.
     bindE (py_get header ''proposer_address'' (JStr [])) (\<lambda>proposer_address.
     bindE (proposer_power val_result proposer_address) (\<lambda>(vp, pp).
     bindE (valid_signatures last_commit) (\<lambda>valid.
       block_dict result header last_commit txs evidence proposer_address vp pp valid))))))))"

text \<open>The body of the \<open>try\<close>: \<open>Inr None\<close> is a \<open>return None\<close>, \<open>Inl\<close> a raised
  exception.\<close>

definition fetch_try :: "rpc \<Rightarrow> int \<Rightarrow> exn + pydict option" where
  "fetch_try r height =
     bindE (checked_json (get_block r height)) (\<lambda>result.
     bindE (py_in ''result'' result) (\<lambda>has_result.
       if \<not> has_result then Inr None
       else
         bindE (py_getitem result ''result'') (\<lambda>res.
         bindE (py_get res ''block'' JNull) (\<lambda>block.
           if \<not> py_truthy block then Inr None
           else bindE (fetch_rest r height result block) (\<lambda>d. Inr (Some d))))))"

text \<open>\<open>except Exception\<close>: the error is printed and \<open>None\<close> is returned.\<close>

definition fetch_block_data :: "rpc \<Rightarrow> int \<Rightarrow> pydict option" where
  "fetch_block_data r height = (case fetch_try r height of Inl e \<Rightarrow> None | Inr res \<Rightarrow> res)"

subsection \<open>The signature entries of the specification, for comparison\<close>

text \<open>An entry as the specification reads it: its flag and its signature value. An
  entry is well typed when the flag is an integer and the signature a string, \<open>null\<close>
  or absent, as CometBFT sends them.\<close>

definition sig_flag :: "pydict \<Rightarrow> int" where
  "sig_flag d = (case map_of d ''block_id_flag'' of Some (JInt f) \<Rightarrow> f | _ \<Rightarrow> 0)"

definition sig_value :: "pydict \<Rightarrow> string" where
  "sig_value d = (case map_of d ''signature'' of Some (JStr s) \<Rightarrow> s | _ \<Rightarrow> [])"

definition sig_well_typed :: "pydict \<Rightarrow> bool" where
  "sig_well_typed d =
     ((case map_of d ''block_id_flag'' of Some (JInt f) \<Rightarrow> True | _ \<Rightarrow> False) \<and>
      (case map_of d ''signature'' of
         Some (JStr s) \<Rightarrow> True | Some JNull \<Rightarrow> True | None \<Rightarrow> True | _ \<Rightarrow> False))"

definition spec_valid_count :: "pydict list \<Rightarrow> nat" where
  "spec_valid_count ds = length (filter (\<lambda>d. sig_flag d > 1 \<and> sig_value d \<noteq> []) ds)"

subsection \<open>Example responses\<close>

definition spec_signatures :: "pydict list" where
  "spec_signatures =
     [[(''block_id_flag'', JInt 2), (''signature'', JStr ''a'')],
      [(''block_id_flag'', JInt 1), (''signature'', JStr [])],
      [(''block_id_flag'', JInt 3), (''signature'', JStr ''b'')],
      [(''block_id_flag'', JInt 2), (''signature'', JStr [])]]"

definition example_block :: "pydict" where
  "example_block =
     [(''header'', JDict [(''height'', JStr ''7''), (''proposer_address'', JStr ''AA'')]),
      (''last_commit'', JDict [(''round'', JInt 0),
                               (''signatures'', JList (map JDict spec_signatures))])]"

definition example_block_response :: "pydict" where
  "example_block_response = [(''result'', JDict [(''block'', JDict example_block)])]"

definition example_validators :: "json" where
  "example_validators = JDict [(''result'', JDict [(''validators'', JList
     [JDict [(''address'', JStr ''AA''), (''voting_power'', JStr ''10''),
             (''proposer_priority'', JStr ''-3'')]])])]"

definition example_rpc :: rpc where
  "example_rpc = \<lparr>get_block = (\<lambda>h. Response 200 (Some (JDict example_block_response))),
                  get_validators = (\<lambda>h. Response 200 (Some example_validators))\<rparr>"

text \<open>The same node when the request for the validator set fails, and when it answers
  with a body that has no \<open>result\<close> key.\<close>

definition rpc_validators_down :: rpc where
  "rpc_validators_down = example_rpc\<lparr>get_validators := (\<lambda>h. RequestFailed)\<rparr>"

definition rpc_validators_empty :: rpc where
  "rpc_validators_empty =
     example_rpc\<lparr>get_validators := (\<lambda>h. Response 200 (Some (JDict [(''error'', JStr ''x'')])))\<rparr>"

subsection \<open>Well-formed block responses and absent validator data, for comparison\<close>

text \<open>
  The shape of a block response on which the fetcher depends, read off the response
  alone. \<open>sub_dict d k\<close> is the dictionary under \<open>k\<close>, empty when there is none.
\<close>

definition sub_dict :: "pydict \<Rightarrow> string \<Rightarrow> pydict" where
  "sub_dict d k = (case map_of d k of Some (JDict x) \<Rightarrow> x | _ \<Rightarrow> [])"

definition is_dict_at :: "pydict \<Rightarrow> string \<Rightarrow> bool" where
  "is_dict_at d k = (case map_of d k of Some (JDict x) \<Rightarrow> True | _ \<Rightarrow> False)"

definition dict_or_absent :: "pydict \<Rightarrow> string \<Rightarrow> bool" where
  "dict_or_absent d k = (case map_of d k of None \<Rightarrow> True | Some (JDict x) \<Rightarrow> True | _ \<Rightarrow> False)"

definition has_len :: "json \<Rightarrow> bool" where
  "has_len j = (case j of JList xs \<Rightarrow> True | JDict d \<Rightarrow> True | JStr s \<Rightarrow> True | _ \<Rightarrow> False)"

text \<open>A field that \<open>int()\<close> accepts: an integer, a boolean, or a string that spells an
  integer; an absent field counts as 0.\<close>

definition int_field :: "pydict \<Rightarrow> string \<Rightarrow> bool" where
  "int_field d k = (case py_int (dict_get d k (JInt 0)) of Inr n \<Rightarrow> True | Inl e \<Rightarrow> False)"

text \<open>A signature entry whose flag can be compared with 1, or an entry that is no
  dictionary (which the count passes over).\<close>

definition sig_entry_ok :: "json \<Rightarrow> bool" where
  "sig_entry_ok s =
     (case s of
        JDict d \<Rightarrow> (case dict_get d ''block_id_flag'' (JInt 0) of
                      JInt f \<Rightarrow> True | JBool b \<Rightarrow> True | _ \<Rightarrow> False)
      | _ \<Rightarrow> True)"

definition well_formed_block :: "pydict \<Rightarrow> bool" where
  "well_formed_block tp =
     (let res = sub_dict tp ''result'';
          blk = sub_dict res ''block'';
          hd = sub_dict blk ''header'';
          lc = sub_dict blk ''last_commit''
      in is_dict_at tp ''result'' \<and> is_dict_at res ''block'' \<and> blk \<noteq> [] \<and>
         dict_or_absent tp ''block_id'' \<and>
         dict_or_absent (sub_dict tp ''block_id'') ''parts'' \<and>
         dict_or_absent blk ''header'' \<and> dict_or_absent blk ''last_commit'' \<and>
         dict_or_absent blk ''data'' \<and> dict_or_absent blk ''evidence'' \<and>
         has_len (dict_get (sub_dict blk ''data'') ''txs'' (JList [])) \<and>
         has_len (dict_get (sub_dict blk ''evidence'') ''evidence'' (JList [])) \<and>
         int_field hd ''height'' \<and> int_field lc ''round'' \<and>
         dict_or_absent hd ''last_block_id'' \<and> dict_or_absent hd ''version'' \<and>
         (case dict_get lc ''signatures'' (JList []) of
            JList ss \<Rightarrow> list_all sig_entry_ok ss | _ \<Rightarrow> False))"

text \<open>The proposer address of a block response.\<close>

definition proposer_of :: "pydict \<Rightarrow> json" where
  "proposer_of tp =
     dict_get (sub_dict (sub_dict (sub_dict tp ''result'') ''block'') ''header'')
       ''proposer_address'' (JStr [])"

text \<open>A decoded validator-set response without data for the proposer: a dictionary
  with no \<open>result\<close> key, a list without the element \<open>"result"\<close>, or a \<open>result\<close> whose
  validator list has no entry with the proposer's address.\<close>

definition other_validator :: "json \<Rightarrow> json \<Rightarrow> bool" where
  "other_validator pa x =
     (case x of JDict d \<Rightarrow> \<not> py_eq (dict_get d ''address'' JNull) pa | _ \<Rightarrow> False)"

fun validator_data_absent :: "json \<Rightarrow> json \<Rightarrow> bool" where
  "validator_data_absent (JDict vd) pa =
     (case map_of vd ''result'' of
        None \<Rightarrow> True
      | Some (JDict rd) \<Rightarrow>
          (case dict_get rd ''validators'' (JList []) of
             JList vs \<Rightarrow> list_all (other_validator pa) vs
           | _ \<Rightarrow> False)
      | Some _ \<Rightarrow> False)"
| "validator_data_absent (JList xs) pa = (JStr ''result'' \<notin> set xs)"
| "validator_data_absent _ pa = False"

definition rpc_validators_other :: rpc where
  "rpc_validators_other =
     example_rpc\<lparr>get_validators := (\<lambda>h. Response 200 (Some (JDict [(''result'', JDict
        [(''validators'', JList [JDict [(''address'', JStr ''BB''),
                                        (''voting_power'', JStr ''5'')]])])])))\<rparr>"

section \<open>The oracle vote poll: \<open>get_req\<close>\<close>

text \<open>
  \<open>get_req\<close> of the price-feeder monitor makes one request per invocation and, on a
  200 response with an empty \<open>aggregate_votes\<close> list, calls itself. The endpoint is a
  sequence of answers, \<open>srv i\<close> being the answer to request number \<open>i\<close>. Every
  invocation makes one request and the recursive call is nested in its caller, so the
  request number \<open>depth\<close> is also the number of enclosing invocations. The first
  argument is the number of nested invocations that the interpreter still allows
  (\<open>sys.getrecursionlimit()\<close>, 1000 unless changed, less the frames in use): at 0 the
  call raises \<open>RecursionError\<close>, which nothing in the script catches. The result is
  what the outermost call returns or raises, with the effects in order; \<open>sys.exit(-1)\<close>
  in \<open>print_error\<close> is the exception \<open>SystemExit\<close>.
\<close>

definition votes_len :: "json \<Rightarrow> exn + nat" where
  "votes_len data = bindE (py_getitem data ''aggregate_votes'') py_len"

fun get_req :: "nat \<Rightarrow> (nat \<Rightarrow> http_result) \<Rightarrow> nat \<Rightarrow> (exn + json) \<times> effect list" where
  "get_req 0 srv depth = (Inl RecursionError, [])"
| "get_req (Suc frames) srv depth =
     (case srv depth of
        RequestFailed \<Rightarrow> (Inl RequestException, [Request])
      | Response st body \<Rightarrow>
          if st = 200 then
            (case body of
               None \<Rightarrow> (Inl ValueError, [Request])
             | Some data \<Rightarrow>
                 (case votes_len data of
                    Inl e \<Rightarrow> (Inl e, [Request])
                  | Inr n \<Rightarrow>
                      if n > 0 then (Inr data, [Request])
                      else (let (res, effs) = get_req frames srv (Suc depth)
                            in (res, Request # effs))))
          else (Inl SystemExit, [Request]))"

text \<open>The answer on which \<open>get_req\<close> asks again.\<close>

fun no_votes_yet :: "http_result \<Rightarrow> bool" where
  "no_votes_yet (Response st (Some data)) = (st = 200 \<and> votes_len data = Inr 0)"
| "no_votes_yet _ = False"

subsection \<open>Example endpoints\<close>

definition no_votes :: json where
  "no_votes = JDict [(''aggregate_votes'', JList [])]"

definition one_vote :: json where
  "one_vote = JDict [(''aggregate_votes'', JList [JDict [(''voter'', JStr ''umeevaloper1'')]])]"

definition always_empty :: "nat \<Rightarrow> http_result" where
  "always_empty i = Response 200 (Some no_votes)"

definition empty_until :: "nat \<Rightarrow> nat \<Rightarrow> http_result" where
  "empty_until n i = (if i < n then Response 200 (Some no_votes) else Response 200 (Some one_vote))"

definition empty_then_down :: "nat \<Rightarrow> nat \<Rightarrow> http_result" where
  "empty_then_down n i = (if i < n then Response 200 (Some no_votes) else Response 503 None)"

section \<open>Validator monitor: one cycle of \<open>monitor_validators\<close>\<close>

text \<open>
  What the node answers in one cycle. \<open>make_request\<close> gives the decoded body, or
  \<open>None\<close> when every endpoint failed with a request error; a body that does not decode
  raises past it. The three fields are \<open>get_block()\<close>, \<open>get_block(height)\<close> and
  \<open>get_validator_set(height)\<close>.
\<close>

record chain =
  latest_block :: "exn + json option"
  block_at :: "int \<Rightarrow> exn + json option"
  validator_set_at :: "int \<Rightarrow> exn + json option"

definition total_blocks :: nat where
  "total_blocks = 100"

text \<open>The loop over the signatures of one block. \<open>acc\<close> is \<open>signed_vals\<close>. A comparison
  that raises ends the loop: the \<open>try\<close> around it prints the error, and the addresses
  collected so far stay.\<close>

fun scan_signatures :: "string list \<Rightarrow> json list \<Rightarrow> string list \<Rightarrow> string list" where
  "scan_signatures addresses [] acc = acc"
| "scan_signatures addresses (JDict d # rest) acc =
     (case dict_get d ''validator_address'' JNull of
        JStr validator_addr \<Rightarrow>
          if validator_addr \<in> set addresses then
            (case py_gt_int (dict_get d ''block_id_flag'' (JInt 0)) 1 of
               Inl e \<Rightarrow> acc
             | Inr signed \<Rightarrow>
                 scan_signatures addresses rest (if signed then validator_addr # acc else acc))
          else scan_signatures addresses rest acc
      | _ \<Rightarrow> scan_signatures addresses rest acc)"
| "scan_signatures addresses (_ # rest) acc = scan_signatures addresses rest acc"

definition signed_vals :: "string list \<Rightarrow> json \<Rightarrow> string list" where
  "signed_vals addresses block =
     (case bindE (py_getitem block ''result'') (\<lambda>r.
           bindE (py_getitem r ''block'') (\<lambda>b.
           bindE (py_getitem b ''last_commit'') (\<lambda>commit.
           bindE (py_get commit ''signatures'' (JList [])) py_iter))) of
        Inl e \<Rightarrow> []
      | Inr signatures \<Rightarrow> scan_signatures addresses signatures [])"

text \<open>\<open>for addr in self.addresses: if addr in signed_vals: signed_counts[addr] += 1\<close>.\<close>

fun update_counts :: "string list \<Rightarrow> string list \<Rightarrow> (string \<Rightarrow> nat) \<Rightarrow> (string \<Rightarrow> nat)" where
  "update_counts [] signed counts = counts"
| "update_counts (addr # rest) signed counts =
     update_counts rest signed
       (if addr \<in> set signed then counts(addr := counts addr + 1) else counts)"

text \<open>\<open>not val_set or 'result' not in val_set or 'validators' not in val_set['result']\<close>.\<close>

definition no_validators :: "json option \<Rightarrow> exn + bool" where
  "no_validators val_set =
     (case val_set of
        None \<Rightarrow> Inr True
      | Some v \<Rightarrow>
          if \<not> py_truthy v then Inr True
          else bindE (py_in ''result'' v) (\<lambda>has_result.
                 if \<not> has_result then Inr True
                 else bindE (py_getitem v ''result'') (\<lambda>r.
                      bindE (py_in ''validators'' r) (\<lambda>has_validators.
                        Inr (\<not> has_validators)))))"

text \<open>The loop over the heights of the window, with \<open>blocks_checked\<close> and the counters.\<close>

fun check_blocks ::
  "chain \<Rightarrow> string list \<Rightarrow> int list \<Rightarrow> nat \<Rightarrow> (string \<Rightarrow> nat) \<Rightarrow> exn + (nat \<times> (string \<Rightarrow> nat))" where
  "check_blocks ch addresses [] blocks_checked counts = Inr (blocks_checked, counts)"
| "check_blocks ch addresses (height # rest) blocks_checked counts =
     bindE (block_at ch height) (\<lambda>block.
       case block of
         None \<Rightarrow> check_blocks ch addresses rest blocks_checked counts
       | Some b \<Rightarrow>
           if \<not> py_truthy b then check_blocks ch addresses rest blocks_checked counts
           else if blocks_checked + 1 > total_blocks then Inr (blocks_checked + 1, counts)
           else
             bindE (validator_set_at ch height) (\<lambda>val_set.
             bindE (no_validators val_set) (\<lambda>skip.
               if skip then check_blocks ch addresses rest (blocks_checked + 1) counts
               else check_blocks ch addresses rest (blocks_checked + 1)
                      (update_counts addresses (signed_vals addresses b) counts))))"

text \<open>The three gauges, by validator address. Python computes \<open>signed / total\<close> and
  the product with 100 in binary floating point: each is the exact result, rounded to a
  float. The rounding is the parameter \<open>fl\<close>, a function on the rational numbers; what
  is used of it is written out where it is used (it is monotone and leaves 0, 1 and 100
  as they are, as rounding to the nearest float does). Counts are small integers, which
  \<open>Gauge.set\<close> converts exactly.\<close>

record gauges =
  BLOCKS_SIGNED :: "string \<Rightarrow> rat option"
  MISSED_BLOCKS :: "string \<Rightarrow> rat option"
  SIGNING_PERCENTAGE :: "string \<Rightarrow> rat option"

definition float_percentage :: "(rat \<Rightarrow> rat) \<Rightarrow> nat \<Rightarrow> nat \<Rightarrow> rat" where
  "float_percentage fl signed total_n = fl (fl (of_nat signed / of_nat total_n) * 100)"

text \<open>The body of the \<open>try\<close> in \<open>update_metrics\<close>, and the function with its handler,
  which prints the error and leaves the gauges as they are.\<close>

definition update_metrics_try ::
  "(rat \<Rightarrow> rat) \<Rightarrow> gauges \<Rightarrow> string \<Rightarrow> nat \<Rightarrow> nat \<Rightarrow> exn + gauges" where
  "update_metrics_try fl g addr signed total_n =
     (if total_n = 0 then Inl ZeroDivisionError
      else
        let percentage = float_percentage fl signed total_n in
        Inr (g\<lparr>BLOCKS_SIGNED := (BLOCKS_SIGNED g)(addr \<mapsto> of_nat signed),
               MISSED_BLOCKS := (MISSED_BLOCKS g)(addr \<mapsto> of_nat total_n - of_nat signed),
               SIGNING_PERCENTAGE := (SIGNING_PERCENTAGE g)(addr \<mapsto> percentage)\<rparr>))"

definition update_metrics :: "(rat \<Rightarrow> rat) \<Rightarrow> gauges \<Rightarrow> string \<Rightarrow> nat \<Rightarrow> nat \<Rightarrow> gauges" where
  "update_metrics fl g addr signed total_n =
     (case update_metrics_try fl g addr signed total_n of Inl e \<Rightarrow> g | Inr g' \<Rightarrow> g')"

text \<open>One line of the summary: the address, the signed count, the total, the printed
  percentage.\<close>

record summary_line =
  line_addr :: string
  line_signed :: nat
  line_total :: nat
  line_percentage :: rat

definition summary_for :: "(rat \<Rightarrow> rat) \<Rightarrow> (string \<Rightarrow> nat) \<Rightarrow> nat \<Rightarrow> string \<Rightarrow> summary_line" where
  "summary_for fl counts actual_total_blocks addr =
     (let signed = min (counts addr) actual_total_blocks;
          percentage = (if actual_total_blocks > 0
                        then float_percentage fl signed actual_total_blocks else 0)
      in \<lparr>line_addr = addr, line_signed = signed, line_total = actual_total_blocks,
          line_percentage = percentage\<rparr>)"

text \<open>The loop that prints the summary and updates the gauges, address by address.\<close>

fun summarize ::
  "(rat \<Rightarrow> rat) \<Rightarrow> (string \<Rightarrow> nat) \<Rightarrow> nat \<Rightarrow> string list \<Rightarrow> gauges
     \<Rightarrow> summary_line list \<times> gauges" where
  "summarize fl counts actual_total_blocks [] g = ([], g)"
| "summarize fl counts actual_total_blocks (addr # rest) g =
     (let l = summary_for fl counts actual_total_blocks addr;
          g' = update_metrics fl g addr (line_signed l) actual_total_blocks;
          (ls, g'') = summarize fl counts actual_total_blocks rest g'
      in (l # ls, g''))"

record cycle_result =
  blocks_checked :: nat
  summary :: "summary_line list"
  metrics :: gauges

definition latest_height_of :: "json \<Rightarrow> exn + int" where
  "latest_height_of latest =
     bindE (py_getitem latest ''result'') (\<lambda>r.
     bindE (py_getitem r ''block'') (\<lambda>b.
     bindE (py_getitem b ''header'') (\<lambda>h.
     bindE (py_getitem h ''height'') py_int)))"

text \<open>The body of the \<open>try\<close> of one pass of the \<open>while\<close> loop. With no latest block the
  pass sleeps and starts again, without a summary. \<open>Inl\<close> is an exception, which the
  handler of the loop prints before the sleep.\<close>

definition monitor_cycle ::
  "(rat \<Rightarrow> rat) \<Rightarrow> chain \<Rightarrow> string list \<Rightarrow> gauges \<Rightarrow> exn + cycle_result" where
  "monitor_cycle fl ch addresses g =
     bindE (latest_block ch) (\<lambda>latest.
       case latest of
         None \<Rightarrow> Inr \<lparr>blocks_checked = 0, summary = [], metrics = g\<rparr>
       | Some lb \<Rightarrow>
           if \<not> py_truthy lb then Inr \<lparr>blocks_checked = 0, summary = [], metrics = g\<rparr>
           else
             bindE (latest_height_of lb) (\<lambda>latest_height.
               let start_height = max 1 (latest_height - int total_blocks + 1) in
               bindE (check_blocks ch addresses [start_height..latest_height] 0 (\<lambda>addr. 0))
                 (\<lambda>(checked, counts).
                    let actual_total_blocks = min checked total_blocks;
                        (ls, g') = summarize fl counts actual_total_blocks addresses g
                    in Inr \<lparr>blocks_checked = checked, summary = ls, metrics = g'\<rparr>)))"

subsection \<open>Answers that let a cycle finish, for comparison\<close>

text \<open>A validator-set answer on which the test of the loop does not raise: none, or a
  dictionary whose \<open>result\<close>, if it has one, is a dictionary.\<close>

definition valset_shape_ok :: "json option \<Rightarrow> bool" where
  "valset_shape_ok v =
     (case v of
        None \<Rightarrow> True
      | Some (JDict d) \<Rightarrow>
          (case map_of d ''result'' of None \<Rightarrow> True | Some (JDict r) \<Rightarrow> True | _ \<Rightarrow> False)
      | _ \<Rightarrow> False)"

text \<open>A rounding as the text on the gauges describes it.\<close>

definition rounding_ok :: "(rat \<Rightarrow> rat) \<Rightarrow> bool" where
  "rounding_ok fl = (mono fl \<and> fl 0 = 0 \<and> fl 1 = 1 \<and> fl 100 = 100)"

subsection \<open>Example chain\<close>

definition signed_inner :: "string \<Rightarrow> pydict" where
  "signed_inner h =
     [(''header'', JDict [(''height'', JStr h)]),
      (''last_commit'', JDict [(''signatures'', JList
         [JDict [(''validator_address'', JStr ''V1''), (''block_id_flag'', JInt 2)],
          JDict [(''validator_address'', JStr ''V2''), (''block_id_flag'', JInt 1)]])])]"

definition signed_block :: "string \<Rightarrow> json" where
  "signed_block h = JDict [(''result'', JDict [(''block'', JDict (signed_inner h))])]"

definition some_validators :: json where
  "some_validators = JDict [(''result'', JDict [(''validators'', JList [])])]"

definition small_chain :: chain where
  "small_chain = \<lparr>latest_block = Inr (Some (signed_block ''3'')),
                  block_at = (\<lambda>h. Inr (if h = 2 then None else Some (signed_block ''3''))),
                  validator_set_at = (\<lambda>h. Inr (Some some_validators))\<rparr>"

definition dark_chain :: chain where
  "dark_chain = \<lparr>latest_block = Inr (Some (signed_block ''3'')),
                 block_at = (\<lambda>h. Inr None),
                 validator_set_at = (\<lambda>h. Inr None)\<rparr>"

definition no_gauges :: gauges where
  "no_gauges = \<lparr>BLOCKS_SIGNED = Map.empty, MISSED_BLOCKS = Map.empty,
                SIGNING_PERCENTAGE = Map.empty\<rparr>"

section \<open>Properties\<close>

lemma bindE_Inr [simp]: "bindE (Inr x) f = f x"
  by (simp add: bindE_def)

lemma bindE_Inl [simp]: "bindE (Inl e) f = Inl e"
  by (simp add: bindE_def)

lemma bindE_eq_Inr: "bindE m f = Inr y \<longleftrightarrow> (\<exists>x. m = Inr x \<and> f x = Inr y)"
  by (cases m) (simp_all add: bindE_def)

lemma map_of_in_keys: "map_of d k = Some v \<Longrightarrow> k \<in> fst ` set d"
  by (metis map_of_eq_None_iff option.distinct(1))

subsection \<open>The fetcher\<close>

lemma block_dict_valid:
  "block_dict result header last_commit txs evidence pa vp pp valid = Inr bd
   \<Longrightarrow> map_of bd ''valid_signatures'' = Some (JInt (int valid))"
  unfolding block_dict_def bindE_eq_Inr
  by (elim exE conjE) auto

lemma block_dict_power:
  "block_dict result header last_commit txs evidence pa vp pp valid = Inr bd
   \<Longrightarrow> map_of bd ''total_voting_power'' = Some (JInt vp) \<and>
       map_of bd ''proposer_priority'' = Some (JInt pp)"
  unfolding block_dict_def bindE_eq_Inr
  by (elim exE conjE) auto

lemma sig_counts_typed:
  "sig_well_typed d \<Longrightarrow> sig_counts (JDict d) = Inr (sig_flag d > 1 \<and> sig_value d \<noteq> [])"
  by (auto simp: sig_well_typed_def sig_flag_def sig_value_def dict_get_def
      split: option.splits json.splits)

lemma count_valid_typed:
  "list_all sig_well_typed ds \<Longrightarrow> count_valid (map JDict ds) = Inr (spec_valid_count ds)"
  unfolding spec_valid_count_def
  by (induction ds) (simp_all add: sig_counts_typed del: sig_counts.simps)

lemma fetch_block_data_SomeD:
  assumes "fetch_block_data r h = Some bd"
    and "get_block r h = Response st (Some (JDict tp))"
    and "map_of tp ''result'' = Some (JDict res)"
    and "map_of res ''block'' = Some block"
  shows "fetch_rest r h (JDict tp) block = Inr bd"
proof -
  from assms(1) have x: "fetch_try r h = Inr (Some bd)"
    by (auto simp: fetch_block_data_def split: sum.splits)
  have ok: "checked_json (get_block r h) = Inr (JDict tp)"
    using x assms(2) by (auto simp: fetch_try_def split: if_splits)
  show ?thesis
    using x assms(3,4) map_of_in_keys[OF assms(3)]
    by (auto simp: fetch_try_def ok dict_get_def bindE_eq_Inr split: if_splits)
qed

lemma example_fetch_ok: "fetch_block_data example_rpc 7 \<noteq> None"
  by code_simp

lemma fetch_rest_InrD:
  assumes "fetch_rest r h result block = Inr bd"
  shows "\<exists>header last_commit txs evidence val_result pa vp pp valid.
     py_get block ''header'' (JDict []) = Inr header \<and>
     py_get block ''last_commit'' (JDict []) = Inr last_commit \<and>
     checked_json (get_validators r h) = Inr val_result \<and>
     py_get header ''proposer_address'' (JStr []) = Inr pa \<and>
     proposer_power val_result pa = Inr (vp, pp) \<and>
     valid_signatures last_commit = Inr valid \<and>
     block_dict result header last_commit txs evidence pa vp pp valid = Inr bd"
  using assms by (fastforce simp: fetch_rest_def bindE_eq_Inr)

text \<open>
  C4. For every block that \<open>fetch_block_data\<close> returns, the field \<open>valid_signatures\<close>
  is the number of entries of the last commit's signature list whose \<open>block_id_flag\<close>
  is greater than 1 and whose signature is not empty. The entries are dictionaries with
  an integer flag and a string (or \<open>null\<close>, or no) signature.
\<close>

theorem valid_signatures_count:
  assumes "fetch_block_data r h = Some bd"
    and "get_block r h = Response st (Some (JDict tp))"
    and "map_of tp ''result'' = Some (JDict res)"
    and "map_of res ''block'' = Some (JDict blk)"
    and "map_of blk ''last_commit'' = Some (JDict lc)"
    and "map_of lc ''signatures'' = Some (JList (map JDict ds))"
    and "list_all sig_well_typed ds"
  shows "map_of bd ''valid_signatures'' = Some (JInt (int (spec_valid_count ds)))"
proof -
  have rest: "fetch_rest r h (JDict tp) (JDict blk) = Inr bd"
    by (rule fetch_block_data_SomeD[OF assms(1-4)])
  have vs: "valid_signatures (JDict lc) = Inr (spec_valid_count ds)"
    by (simp add: valid_signatures_def dict_get_def assms(6) count_valid_typed[OF assms(7)])
  from fetch_rest_InrD[OF rest] obtain header last_commit txs evidence pa vp pp valid where
    l: "py_get (JDict blk) ''last_commit'' (JDict []) = Inr last_commit" and
    v: "valid_signatures last_commit = Inr valid" and
    b: "block_dict (JDict tp) header last_commit txs evidence pa vp pp valid = Inr bd"
    by blast
  from l have "last_commit = JDict lc" by (simp add: dict_get_def assms(5))
  with v vs have "valid = spec_valid_count ds" by simp
  with block_dict_valid[OF b] show ?thesis by simp
qed

text \<open>The signature list of the specification, \<open>[{flag:2,sig:"a"}, {flag:1,sig:""},
  {flag:3,sig:"b"}, {flag:2,sig:""}]\<close>, gives the count 2.\<close>

theorem valid_signatures_count_witness:
  "fetch_block_data example_rpc 7 \<noteq> None \<and>
   map_of (the (fetch_block_data example_rpc 7)) ''valid_signatures'' = Some (JInt 2)"
proof -
  have wt: "list_all sig_well_typed spec_signatures"
    by (simp add: spec_signatures_def sig_well_typed_def)
  have n: "spec_valid_count spec_signatures = 2"
    by (simp add: spec_signatures_def spec_valid_count_def sig_flag_def sig_value_def)
  have s: "fetch_block_data example_rpc 7 = Some (the (fetch_block_data example_rpc 7))"
    using example_fetch_ok by simp
  have "map_of (the (fetch_block_data example_rpc 7)) ''valid_signatures''
          = Some (JInt (int (spec_valid_count spec_signatures)))"
    by (rule valid_signatures_count[OF s, of 200 example_block_response
          "[(''block'', JDict example_block)]" example_block
          "[(''round'', JInt 0), (''signatures'', JList (map JDict spec_signatures))]"])
       (simp_all add: example_rpc_def example_block_response_def example_block_def wt)
  with n example_fetch_ok show ?thesis by simp
qed

text \<open>
  C6, as the specification states it, fails: the block is fetched, the request for the
  validator set raises, and \<open>fetch_block_data\<close> returns \<open>None\<close>, so the unit
  is skipped. The second request stands inside the same \<open>try\<close> as the first.
\<close>

theorem validator_fetch_failure_counterexample:
  "checked_json (get_block rpc_validators_down 7) = Inr (JDict example_block_response) \<and>
   get_validators rpc_validators_down 7 = RequestFailed \<and>
   fetch_block_data rpc_validators_down 7 = None"
  by (simp add: rpc_validators_down_def example_rpc_def fetch_block_data_def fetch_try_def
      fetch_rest_def example_block_response_def example_block_def dict_get_def get2_def)

lemma dict_or_absent_get:
  "dict_or_absent d k \<Longrightarrow> dict_get d k (JDict []) = JDict (sub_dict d k)"
  by (auto simp: dict_or_absent_def dict_get_def sub_dict_def split: option.splits json.splits)

lemma is_dict_at_get:
  "is_dict_at d k \<Longrightarrow> map_of d k = Some (JDict (sub_dict d k))"
  by (auto simp: is_dict_at_def sub_dict_def split: option.splits json.splits)

lemma has_len_ok: "has_len j \<Longrightarrow> \<exists>n. py_len j = Inr n"
  by (cases j) (simp_all add: has_len_def)

lemma int_field_ok: "int_field d k \<Longrightarrow> \<exists>n. py_int (dict_get d k (JInt 0)) = Inr n"
  by (auto simp: int_field_def split: sum.splits)

lemma sig_entry_ok_counts: "sig_entry_ok s \<Longrightarrow> \<exists>b. sig_counts s = Inr b"
  by (cases s) (auto simp: sig_entry_ok_def split: json.splits)

lemma count_valid_ok: "list_all sig_entry_ok ss \<Longrightarrow> \<exists>n. count_valid ss = Inr n"
proof (induction ss)
  case Nil
  then show ?case by simp
next
  case (Cons s ss)
  then obtain b n where "sig_counts s = Inr b" "count_valid ss = Inr n"
    using sig_entry_ok_counts[of s] by auto
  then show ?case by simp
qed

lemma find_proposer_other:
  "list_all (other_validator pa) vs \<Longrightarrow> find_proposer pa vs = Inr (0, 0)"
proof (induction vs)
  case Nil
  then show ?case by simp
next
  case (Cons x vs)
  then obtain d where "x = JDict d" "\<not> py_eq (dict_get d ''address'' JNull) pa"
    by (cases x) (auto simp: other_validator_def)
  with Cons show ?case by simp
qed

lemma proposer_power_absent:
  "validator_data_absent v pa \<Longrightarrow> proposer_power v pa = Inr (0, 0)"
proof (cases v)
  case (JDict vd)
  assume a: "validator_data_absent v pa"
  show ?thesis
  proof (cases "map_of vd ''result''")
    case None
    then have "''result'' \<notin> fst ` set vd" by (simp add: map_of_eq_None_iff)
    with JDict show ?thesis by (simp add: proposer_power_def)
  next
    case (Some r)
    with a JDict obtain rd vs where r: "r = JDict rd"
      "dict_get rd ''validators'' (JList []) = JList vs" "list_all (other_validator pa) vs"
      by (auto split: json.splits)
    from Some have "''result'' \<in> fst ` set vd" by (rule map_of_in_keys)
    with JDict Some r show ?thesis
      by (simp add: proposer_power_def find_proposer_other)
  qed
qed (auto simp: proposer_power_def)

lemma block_dict_ok:
  assumes "int_field hdd ''height''" and "int_field lc ''round''"
    and "dict_or_absent tp ''block_id''" and "dict_or_absent (sub_dict tp ''block_id'') ''parts''"
    and "dict_or_absent hdd ''last_block_id''" and "dict_or_absent hdd ''version''"
    and "has_len txs" and "has_len evidence"
    and "has_len (dict_get lc ''signatures'' (JList []))"
  shows "\<exists>bd. block_dict (JDict tp) (JDict hdd) (JDict lc) txs evidence pa vp pp valid = Inr bd"
proof -
  from assms(1,2) obtain height rnd where
    i: "py_int (dict_get hdd ''height'' (JInt 0)) = Inr height"
       "py_int (dict_get lc ''round'' (JInt 0)) = Inr rnd"
    by (auto dest!: int_field_ok)
  from assms(7,8,9) obtain n1 n2 n3 where
    l: "py_len txs = Inr n1" "py_len evidence = Inr n2"
       "py_len (dict_get lc ''signatures'' (JList [])) = Inr n3"
    by (auto dest!: has_len_ok)
  show ?thesis
    by (simp add: block_dict_def get2_def hdr_def i l
        dict_or_absent_get[OF assms(3)] dict_or_absent_get[OF assms(4)]
        dict_or_absent_get[OF assms(5)] dict_or_absent_get[OF assms(6)])
qed

lemma fetch_rest_ok:
  assumes w: "well_formed_block tp"
    and v: "checked_json (get_validators r h) = Inr v"
    and a: "validator_data_absent v (proposer_of tp)"
  shows "\<exists>bd. fetch_rest r h (JDict tp) (JDict (sub_dict (sub_dict tp ''result'') ''block'')) = Inr bd \<and>
              map_of bd ''total_voting_power'' = Some (JInt 0) \<and>
              map_of bd ''proposer_priority'' = Some (JInt 0)"
proof -
  let ?blk = "sub_dict (sub_dict tp ''result'') ''block''"
  let ?hd = "sub_dict ?blk ''header''"
  let ?lc = "sub_dict ?blk ''last_commit''"
  let ?txs = "dict_get (sub_dict ?blk ''data'') ''txs'' (JList [])"
  let ?ev = "dict_get (sub_dict ?blk ''evidence'') ''evidence'' (JList [])"
  let ?pa = "dict_get ?hd ''proposer_address'' (JStr [])"
  from w have d: "dict_or_absent ?blk ''header''" "dict_or_absent ?blk ''last_commit''"
      "dict_or_absent ?blk ''data''" "dict_or_absent ?blk ''evidence''"
    by (simp_all add: well_formed_block_def Let_def)
  from w obtain ss where ss: "dict_get ?lc ''signatures'' (JList []) = JList ss"
      "list_all sig_entry_ok ss"
    by (auto simp: well_formed_block_def Let_def split: json.splits)
  from count_valid_ok[OF ss(2)] obtain valid where c: "count_valid ss = Inr valid" by blast
  have vs: "valid_signatures (JDict ?lc) = Inr valid"
    by (simp add: valid_signatures_def ss c)
  have pp: "proposer_power v ?pa = Inr (0, 0)"
    using a by (simp add: proposer_power_absent proposer_of_def)
  from w have "\<exists>bd. block_dict (JDict tp) (JDict ?hd) (JDict ?lc) ?txs ?ev ?pa 0 0 valid = Inr bd"
    by (intro block_dict_ok) (simp_all add: well_formed_block_def Let_def ss has_len_def)
  then obtain bd where
    bd: "block_dict (JDict tp) (JDict ?hd) (JDict ?lc) ?txs ?ev ?pa 0 0 valid = Inr bd" ..
  have "fetch_rest r h (JDict tp) (JDict ?blk) = Inr bd"
    by (simp add: fetch_rest_def get2_def dict_or_absent_get[OF d(1)] dict_or_absent_get[OF d(2)]
        dict_or_absent_get[OF d(3)] dict_or_absent_get[OF d(4)] v pp vs bd)
  with block_dict_power[OF bd] show ?thesis by simp
qed

lemma fetch_block_data_ok:
  assumes g: "get_block r h = Response st (Some (JDict tp))" and st: "st < 400 \<or> 600 \<le> st"
    and w: "well_formed_block tp"
    and v: "checked_json (get_validators r h) = Inr v"
    and a: "validator_data_absent v (proposer_of tp)"
  shows "\<exists>bd. fetch_block_data r h = Some bd \<and>
              map_of bd ''total_voting_power'' = Some (JInt 0) \<and>
              map_of bd ''proposer_priority'' = Some (JInt 0)"
proof -
  let ?res = "sub_dict tp ''result''"
  let ?blk = "sub_dict ?res ''block''"
  from w have r: "map_of tp ''result'' = Some (JDict ?res)"
    and b: "map_of ?res ''block'' = Some (JDict ?blk)" and ne: "?blk \<noteq> []"
    by (simp_all add: well_formed_block_def Let_def is_dict_at_get)
  from fetch_rest_ok[OF w v a] obtain bd where
    bd: "fetch_rest r h (JDict tp) (JDict ?blk) = Inr bd"
        "map_of bd ''total_voting_power'' = Some (JInt 0)"
        "map_of bd ''proposer_priority'' = Some (JInt 0)" by blast
  have "fetch_try r h = Inr (Some bd)"
    using st map_of_in_keys[OF r]
    by (auto simp: fetch_try_def g r b ne dict_get_def bd(1))
  with bd show ?thesis by (simp add: fetch_block_data_def)
qed

lemma fetch_block_data_validators_failed:
  assumes f: "checked_json (get_validators r h) = Inl e"
  shows "fetch_block_data r h = None"
proof -
  have "fetch_rest r h result block \<noteq> Inr d" for result block d
    using fetch_rest_InrD[of r h result block d] f by auto
  then have "fetch_try r h \<noteq> Inr (Some d)" for d
    by (auto simp: fetch_try_def bindE_eq_Inr split: if_splits)
  then show "fetch_block_data r h = None"
    by (cases "fetch_try r h") (auto simp: fetch_block_data_def)
qed

text \<open>
  C6, amended. A unit whose block fetch succeeds still fails when the validator-set
  request raises, answers with an HTTP error status or with a body that is not JSON:
  \<open>fetch_block_data\<close> returns \<open>None\<close> and the unit is skipped. When the validator-set
  response is received and decodes but holds no data for the proposer (it has no
  \<open>result\<close> key, or its validator list has no entry with the proposer's address), a
  well-formed block response does give the payload, with the proposer's voting power
  and priority at 0.
\<close>

theorem validator_fetch_failure:
  "(checked_json (get_validators r h) = Inl e \<longrightarrow> fetch_block_data r h = None) \<and>
   (get_block r h = Response st (Some (JDict tp)) \<and> (st < 400 \<or> 600 \<le> st) \<and>
    well_formed_block tp \<and>
    checked_json (get_validators r h) = Inr v \<and> validator_data_absent v (proposer_of tp) \<longrightarrow>
      (\<exists>bd. fetch_block_data r h = Some bd \<and>
            map_of bd ''total_voting_power'' = Some (JInt 0) \<and>
            map_of bd ''proposer_priority'' = Some (JInt 0)))"
  using fetch_block_data_validators_failed[of r h e] fetch_block_data_ok[of r h st tp v]
  by blast

lemma example_block_well_formed: "well_formed_block example_block_response"
  by (simp add: well_formed_block_def example_block_response_def example_block_def
      sub_dict_def is_dict_at_def dict_or_absent_def has_len_def dict_get_def int_field_def
      int_of_string_def strip_def is_space_def is_digit_def digits_val_def digit_val_def
      spec_signatures_def sig_entry_ok_def)

lemma example_proposer: "proposer_of example_block_response = JStr ''AA''"
  by (simp add: proposer_of_def example_block_response_def example_block_def sub_dict_def
      dict_get_def)

text \<open>The validator request fails; the validator response has no \<open>result\<close> key; the
  validator set does not list the proposer.\<close>

theorem validator_fetch_failure_witness:
  "fetch_block_data rpc_validators_down 7 = None \<and>
   (\<exists>bd. fetch_block_data rpc_validators_empty 7 = Some bd \<and>
         map_of bd ''total_voting_power'' = Some (JInt 0) \<and>
         map_of bd ''proposer_priority'' = Some (JInt 0)) \<and>
   (\<exists>bd. fetch_block_data rpc_validators_other 7 = Some bd \<and>
         map_of bd ''total_voting_power'' = Some (JInt 0) \<and>
         map_of bd ''proposer_priority'' = Some (JInt 0))"
proof -
  have a: "fetch_block_data rpc_validators_down 7 = None"
    by (rule validator_fetch_failure[of rpc_validators_down 7 RequestException,
          THEN conjunct1, THEN mp])
       (simp add: rpc_validators_down_def)
  have b: "\<exists>bd. fetch_block_data rpc_validators_empty 7 = Some bd \<and>
         map_of bd ''total_voting_power'' = Some (JInt 0) \<and>
         map_of bd ''proposer_priority'' = Some (JInt 0)"
    by (rule validator_fetch_failure[of rpc_validators_empty 7 _ 200 example_block_response
          "JDict [(''error'', JStr ''x'')]", THEN conjunct2, THEN mp])
       (simp add: rpc_validators_empty_def example_rpc_def example_block_well_formed)
  have c: "\<exists>bd. fetch_block_data rpc_validators_other 7 = Some bd \<and>
         map_of bd ''total_voting_power'' = Some (JInt 0) \<and>
         map_of bd ''proposer_priority'' = Some (JInt 0)"
    by (rule validator_fetch_failure[of rpc_validators_other 7 _ 200 example_block_response
          "JDict [(''result'', JDict [(''validators'',
             JList [JDict [(''address'', JStr ''BB''), (''voting_power'', JStr ''5'')]])])]",
          THEN conjunct2, THEN mp])
       (simp add: rpc_validators_other_def example_rpc_def example_block_well_formed
          example_proposer dict_get_def other_validator_def)
  from a b c show ?thesis by blast
qed

subsection \<open>The vote poll\<close>

lemma get_req_step:
  "no_votes_yet (srv d) \<Longrightarrow>
   get_req (Suc f) srv d = (fst (get_req f srv (Suc d)), Request # snd (get_req f srv (Suc d)))"
  by (auto simp: Let_def split: http_result.splits option.splits prod.splits
      elim!: no_votes_yet.elims)

lemma get_req_descend:
  "(\<forall>j<n. no_votes_yet (srv (d + j))) \<Longrightarrow>
   get_req (n + f) srv d =
     (fst (get_req f srv (d + n)), replicate n Request @ snd (get_req f srv (d + n)))"
proof (induction n arbitrary: d)
  case 0
  then show ?case by simp
next
  case (Suc n)
  have h: "no_votes_yet (srv d)" using Suc.prems[rule_format, of 0] by simp
  have "\<forall>j<n. no_votes_yet (srv (Suc d + j))"
  proof (intro allI impI)
    fix j assume "j < n"
    then have "Suc j < Suc n" by simp
    from Suc.prems[rule_format, OF this] show "no_votes_yet (srv (Suc d + j))" by simp
  qed
  from Suc.IH[OF this] h show ?case
    by (simp add: get_req_step del: get_req.simps)
qed

lemma get_req_exhaust:
  "(\<forall>j<f. no_votes_yet (srv j)) \<Longrightarrow> get_req f srv 0 = (Inl RecursionError, replicate f Request)"
  using get_req_descend[of f srv 0 0] by simp

lemma get_req_returned:
  "fst (get_req f srv d) = Inr data \<Longrightarrow>
   \<exists>k. d \<le> k \<and> k < d + f \<and> srv k = Response 200 (Some data) \<and>
       (\<exists>m>0. votes_len data = Inr m) \<and> (\<forall>j. d \<le> j \<and> j < k \<longrightarrow> no_votes_yet (srv j))"
proof (induction f arbitrary: d)
  case 0
  then show ?case by simp
next
  case (Suc f)
  show ?case
  proof (cases "no_votes_yet (srv d)")
    case True
    with Suc.prems have "fst (get_req f srv (Suc d)) = Inr data"
      by (simp add: get_req_step del: get_req.simps)
    from Suc.IH[OF this] obtain k where k: "Suc d \<le> k" "k < Suc d + f"
      "srv k = Response 200 (Some data)" "\<exists>m>0. votes_len data = Inr m"
      "\<forall>j. Suc d \<le> j \<and> j < k \<longrightarrow> no_votes_yet (srv j)" by blast
    have "\<forall>j. d \<le> j \<and> j < k \<longrightarrow> no_votes_yet (srv j)"
    proof (intro allI impI)
      fix j assume "d \<le> j \<and> j < k"
      then have "j = d \<or> (Suc d \<le> j \<and> j < k)" by arith
      with True k(5) show "no_votes_yet (srv j)" by auto
    qed
    with k show ?thesis by (intro exI[of _ k]) auto
  next
    case False
    with Suc.prems have "srv d = Response 200 (Some data) \<and> (\<exists>m>0. votes_len data = Inr m)"
      by (auto simp: Let_def split: http_result.splits option.splits sum.splits if_splits
          prod.splits)
    then show ?thesis by (intro exI[of _ d]) auto
  qed
qed

lemma get_req_requests_only: "set (snd (get_req f srv d)) \<subseteq> {Request}"
proof (induction f arbitrary: d)
  case 0
  then show ?case by simp
next
  case (Suc f)
  show ?case
  proof (cases "no_votes_yet (srv d)")
    case True
    with Suc.IH[of "Suc d"] show ?thesis
      by (simp add: get_req_step del: get_req.simps)
  next
    case False
    then show ?thesis
      by (auto simp: Let_def split: http_result.splits option.splits sum.splits if_splits
          prod.splits)
  qed
qed

lemma get_req_exit:
  "srv d = Response st body \<Longrightarrow> st \<noteq> 200 \<Longrightarrow> get_req (Suc f) srv d = (Inl SystemExit, [Request])"
  by simp

text \<open>
  C9, as the specification states it, fails: the recursion depth is bounded. With
  answers that are empty for ever and room for 1000 nested invocations (the
  interpreter's default limit leaves fewer), the outermost call ends after 1000 requests
  with \<open>RecursionError\<close>.
\<close>

theorem get_req_counterexample:
  "get_req 1000 always_empty 0 = (Inl RecursionError, replicate 1000 Request)"
  by (rule get_req_exhaust) (simp add: always_empty_def no_votes_def votes_len_def)

text \<open>
  C9, amended. \<open>get_req\<close> has no attempt count and no backoff of its own: its only
  effects are requests, one per invocation. While the endpoint answers 200 with an
  empty \<open>aggregate_votes\<close> list it calls itself, each call nested in the one before, so
  that after \<open>n\<close> such answers the call at depth \<open>n\<close> runs, for every \<open>n\<close> within the
  interpreter's recursion limit; under answers that stay empty the depth reaches that
  limit, whatever it is, and the call ends with \<open>RecursionError\<close>. It returns data only
  when an answer with a non-empty vote list has been received, all earlier answers
  having been empty, and a status other than 200 ends the process by \<open>sys.exit\<close>.
\<close>

theorem get_req_unbounded:
  "((\<forall>j<n. no_votes_yet (srv j)) \<longrightarrow>
      get_req (n + f) srv 0 =
        (fst (get_req f srv n), replicate n Request @ snd (get_req f srv n))) \<and>
   ((\<forall>j<f. no_votes_yet (srv j)) \<longrightarrow>
      get_req f srv 0 = (Inl RecursionError, replicate f Request)) \<and>
   (fst (get_req f srv 0) = Inr data \<longrightarrow>
      (\<exists>k<f. srv k = Response 200 (Some data) \<and> (\<exists>m>0. votes_len data = Inr m) \<and>
           (\<forall>j<k. no_votes_yet (srv j)))) \<and>
   ((\<forall>j<n. no_votes_yet (srv j)) \<and> srv n = Response st body \<and> st \<noteq> 200 \<longrightarrow>
      get_req (n + Suc f) srv 0 = (Inl SystemExit, replicate (Suc n) Request)) \<and>
   (\<forall>x \<in> set (snd (get_req f srv 0)). x = Request)"
proof (intro conjI impI)
  assume "\<forall>j<n. no_votes_yet (srv j)"
  then show "get_req (n + f) srv 0 =
        (fst (get_req f srv n), replicate n Request @ snd (get_req f srv n))"
    using get_req_descend[of n srv 0 f] by simp
next
  assume "\<forall>j<f. no_votes_yet (srv j)"
  then show "get_req f srv 0 = (Inl RecursionError, replicate f Request)"
    by (rule get_req_exhaust)
next
  assume "fst (get_req f srv 0) = Inr data"
  from get_req_returned[OF this]
  show "\<exists>k<f. srv k = Response 200 (Some data) \<and> (\<exists>m>0. votes_len data = Inr m) \<and>
           (\<forall>j<k. no_votes_yet (srv j))" by auto
next
  assume a: "(\<forall>j<n. no_votes_yet (srv j)) \<and> srv n = Response st body \<and> st \<noteq> 200"
  then have "get_req (n + Suc f) srv 0 =
        (fst (get_req (Suc f) srv n), replicate n Request @ snd (get_req (Suc f) srv n))"
    using get_req_descend[of n srv 0 "Suc f"] by simp
  with a show "get_req (n + Suc f) srv 0 = (Inl SystemExit, replicate (Suc n) Request)"
    by (simp add: get_req_exit replicate_append_same del: get_req.simps)
next
  show "\<forall>x \<in> set (snd (get_req f srv 0)). x = Request"
    using get_req_requests_only[of f srv 0] by auto
qed

text \<open>An endpoint that never has votes, under a limit of 50 invocations; one that has
  votes at request 20; one that answers 503 after two empty answers.\<close>

theorem get_req_unbounded_witness:
  "get_req 50 always_empty 0 = (Inl RecursionError, replicate 50 Request) \<and>
   get_req (20 + 1) (empty_until 20) 0 = (Inr one_vote, replicate 20 Request @ [Request]) \<and>
   (\<exists>k<21. empty_until 20 k = Response 200 (Some one_vote) \<and>
        (\<exists>m>0. votes_len one_vote = Inr m) \<and> (\<forall>j<k. no_votes_yet (empty_until 20 j))) \<and>
   get_req (2 + Suc 0) (empty_then_down 2) 0 = (Inl SystemExit, replicate (Suc 2) Request) \<and>
   set (snd (get_req 50 always_empty 0)) \<subseteq> {Request}"
proof -
  have e: "votes_len no_votes = Inr 0"
    by (simp add: no_votes_def votes_len_def)
  have v: "votes_len one_vote = Inr 1"
    by (simp add: one_vote_def votes_len_def)
  have r: "get_req (Suc 0) (empty_until n) n = (Inr one_vote, [Request])" for n
    by (simp add: empty_until_def v)
  have a: "get_req 50 always_empty 0 = (Inl RecursionError, replicate 50 Request)"
    by (rule get_req_unbounded[THEN conjunct2, THEN conjunct1, THEN mp])
       (simp add: always_empty_def e)
  have "get_req (20 + 1) (empty_until 20) 0 =
          (fst (get_req 1 (empty_until 20) 20),
           replicate 20 Request @ snd (get_req 1 (empty_until 20) 20))"
    by (rule get_req_unbounded[THEN conjunct1, THEN mp]) (simp add: empty_until_def e)
  with r[of 20] have s: "get_req (20 + 1) (empty_until 20) 0 = (Inr one_vote, replicate 20 Request @ [Request])"
    by (simp del: get_req.simps)
  have c: "\<exists>k<21. empty_until 20 k = Response 200 (Some one_vote) \<and>
        (\<exists>m>0. votes_len one_vote = Inr m) \<and> (\<forall>j<k. no_votes_yet (empty_until 20 j))"
    by (rule get_req_unbounded[of _ _ 21, THEN conjunct2, THEN conjunct2, THEN conjunct1, THEN mp])
       (use s in simp)
  have d: "get_req (2 + Suc 0) (empty_then_down 2) 0 = (Inl SystemExit, replicate (Suc 2) Request)"
    by (rule get_req_unbounded[of 2 _ _ _ 503 None, THEN conjunct2, THEN conjunct2,
          THEN conjunct2, THEN conjunct1, THEN mp])
       (simp add: empty_then_down_def e)
  have "\<forall>x \<in> set (snd (get_req 50 always_empty 0)). x = Request"
    by (rule get_req_unbounded[THEN conjunct2, THEN conjunct2, THEN conjunct2, THEN conjunct2])
  then have f: "set (snd (get_req 50 always_empty 0)) \<subseteq> {Request}" by blast
  from a s c d f show ?thesis by (simp del: get_req.simps)
qed

subsection \<open>The validator monitor\<close>

lemma float_percentage_bounds:
  assumes r: "rounding_ok fl" and s: "s \<le> n" and n: "n > 0"
  shows "0 \<le> float_percentage fl s n \<and> float_percentage fl s n \<le> 100"
proof -
  let ?q = "(of_nat s :: rat) / of_nat n"
  from r have m: "mono fl" and f: "fl 0 = 0" "fl 1 = 1" "fl 100 = 100"
    by (simp_all add: rounding_ok_def)
  have q: "0 \<le> ?q" "?q \<le> 1" using s n by (simp_all add: divide_le_eq_1)
  from monoD[OF m q(1)] monoD[OF m q(2)] f have a: "0 \<le> fl ?q" "fl ?q \<le> 1" by simp_all
  then have b: "0 \<le> fl ?q * 100" "fl ?q * 100 \<le> 100" by simp_all
  from monoD[OF m b(1)] monoD[OF m b(2)] f show ?thesis
    by (simp add: float_percentage_def)
qed

lemma summary_for_bounds:
  assumes "rounding_ok fl"
  shows "line_signed (summary_for fl counts n a) \<le> n \<and>
         line_total (summary_for fl counts n a) = n \<and>
         line_addr (summary_for fl counts n a) = a \<and>
         0 \<le> line_percentage (summary_for fl counts n a) \<and>
         line_percentage (summary_for fl counts n a) \<le> 100 \<and>
         (n = 0 \<longrightarrow> line_percentage (summary_for fl counts n a) = 0)"
  using float_percentage_bounds[OF assms, of "min (counts a) n" n]
  by (auto simp: summary_for_def Let_def)

lemma summarize_lines:
  "fst (summarize fl counts n addresses g) = map (summary_for fl counts n) addresses"
proof (induction addresses arbitrary: g)
  case Nil
  then show ?case by simp
next
  case (Cons a addresses)
  show ?case
    using Cons.IH[of "update_metrics fl g a (line_signed (summary_for fl counts n a)) n"]
    by (simp add: Let_def case_prod_beta)
qed

lemma update_metrics_zero:
  "update_metrics_try fl g a s 0 = Inl ZeroDivisionError \<and> update_metrics fl g a s 0 = g"
  by (simp add: update_metrics_try_def update_metrics_def)

lemma summarize_zero: "snd (summarize fl counts 0 addresses g) = g"
proof (induction addresses arbitrary: g)
  case Nil
  then show ?case by simp
next
  case (Cons a addresses)
  show ?case
    using Cons.IH[of g]
    by (simp add: Let_def update_metrics_zero case_prod_beta)
qed

lemma summarize_gauges:
  assumes "n > 0"
  shows "BLOCKS_SIGNED (snd (summarize fl counts n addresses g)) a =
           (if a \<in> set addresses then Some (of_nat (line_signed (summary_for fl counts n a)))
            else BLOCKS_SIGNED g a) \<and>
         SIGNING_PERCENTAGE (snd (summarize fl counts n addresses g)) a =
           (if a \<in> set addresses then Some (line_percentage (summary_for fl counts n a))
            else SIGNING_PERCENTAGE g a)"
  using assms
proof (induction addresses arbitrary: g)
  case Nil
  then show ?case by simp
next
  case (Cons b rest)
  let ?g = "update_metrics fl g b (line_signed (summary_for fl counts n b)) n"
  have u: "BLOCKS_SIGNED ?g = (BLOCKS_SIGNED g)(b \<mapsto> of_nat (line_signed (summary_for fl counts n b)))"
       "SIGNING_PERCENTAGE ?g = (SIGNING_PERCENTAGE g)(b \<mapsto> line_percentage (summary_for fl counts n b))"
    using Cons.prems
    by (simp_all add: update_metrics_def update_metrics_try_def summary_for_def Let_def)
  have s: "snd (summarize fl counts n (b # rest) g) = snd (summarize fl counts n rest ?g)"
    by (simp add: Let_def case_prod_beta)
  show ?case
    unfolding s using Cons.IH[OF Cons.prems, of ?g] by (simp add: u)
qed

lemma no_validators_ok: "valset_shape_ok v \<Longrightarrow> \<exists>s. no_validators v = Inr s"
proof (cases v)
  case None
  then show ?thesis by (auto simp: no_validators_def)
next
  case (Some j)
  assume a: "valset_shape_ok v"
  with Some obtain d where d: "j = JDict d" by (cases j) (simp_all add: valset_shape_ok_def)
  show ?thesis
  proof (cases "map_of d ''result''")
    case None
    then have "''result'' \<notin> fst ` set d" by (simp add: map_of_eq_None_iff)
    with Some d show ?thesis by (auto simp: no_validators_def)
  next
    case (Some r)
    with a \<open>v = Some j\<close> d obtain rd where rd: "r = JDict rd"
      by (cases r) (simp_all add: valset_shape_ok_def)
    from Some have "''result'' \<in> fst ` set d" by (rule map_of_in_keys)
    with \<open>v = Some j\<close> d Some rd show ?thesis by (auto simp: no_validators_def)
  qed
qed

lemma check_blocks_ok:
  assumes b: "\<forall>h. \<exists>x. block_at ch h = Inr x"
    and v: "\<forall>h. \<exists>x. validator_set_at ch h = Inr x \<and> valset_shape_ok x"
  shows "\<exists>n counts'. check_blocks ch addresses hs c counts = Inr (n, counts')"
proof (induction hs arbitrary: c counts)
  case Nil
  then show ?case by simp
next
  case (Cons h hs)
  from b obtain x where x: "block_at ch h = Inr x" by blast
  from v obtain y where y: "validator_set_at ch h = Inr y" "valset_shape_ok y" by blast
  from no_validators_ok[OF y(2)] obtain s where s: "no_validators y = Inr s" by blast
  show ?case
  proof (cases x)
    case None
    with x Cons.IH[of c counts] show ?thesis by simp
  next
    case (Some bj)
    show ?thesis
    proof (cases "py_truthy bj")
      case False
      with x Some Cons.IH[of c counts] show ?thesis by simp
    next
      case True
      show ?thesis
      proof (cases "c + 1 > total_blocks")
        case over: True
        with True x Some show ?thesis by simp
      next
        case under: False
        show ?thesis
        proof (cases s)
          case True
          with \<open>py_truthy bj\<close> under x Some y s Cons.IH[of "c + 1" counts]
          show ?thesis by simp
        next
          case False
          with \<open>py_truthy bj\<close> under x Some y s
            Cons.IH[of "c + 1" "update_counts addresses (signed_vals addresses bj) counts"]
          show ?thesis by simp
        qed
      qed
    qed
  qed
qed

lemma monitor_cycle_InrD:
  assumes "monitor_cycle fl ch addresses g = Inr res"
  shows "(summary res = [] \<and> metrics res = g \<and> blocks_checked res = 0) \<or>
         (\<exists>counts. summary res = map (summary_for fl counts (min (blocks_checked res) total_blocks)) addresses \<and>
             metrics res = snd (summarize fl counts (min (blocks_checked res) total_blocks) addresses g))"
proof -
  from assms obtain latest where l: "latest_block ch = Inr latest"
    by (auto simp: monitor_cycle_def bindE_eq_Inr)
  show ?thesis
  proof (cases "\<exists>lb. latest = Some lb \<and> py_truthy lb")
    case False
    with assms l show ?thesis
      by (cases latest) (auto simp: monitor_cycle_def)
  next
    case True
    then obtain lb where lb: "latest = Some lb" "py_truthy lb" by blast
    from assms l lb obtain H where H: "latest_height_of lb = Inr H"
      by (auto simp: monitor_cycle_def bindE_eq_Inr)
    from assms l lb H obtain checked counts where
      c: "check_blocks ch addresses [max 1 (H - int total_blocks + 1)..H] 0 (\<lambda>addr. 0)
            = Inr (checked, counts)"
      by (auto simp: monitor_cycle_def Let_def bindE_eq_Inr)
    from assms l lb H c have
      "res = \<lparr>blocks_checked = checked,
              summary = fst (summarize fl counts (min checked total_blocks) addresses g),
              metrics = snd (summarize fl counts (min checked total_blocks) addresses g)\<rparr>"
      by (simp add: monitor_cycle_def Let_def case_prod_beta)
    then show ?thesis by (auto simp: summarize_lines)
  qed
qed

lemma monitor_cycle_bounds:
  assumes r: "rounding_ok fl"
    and c: "monitor_cycle fl ch addresses g = Inr res"
    and l: "l \<in> set (summary res)"
  shows "line_signed l \<le> line_total l \<and> line_total l \<le> blocks_checked res \<and>
         0 \<le> line_percentage l \<and> line_percentage l \<le> 100 \<and>
         (blocks_checked res = 0 \<longrightarrow>
            line_percentage l = 0 \<and> metrics res = g \<and>
            update_metrics_try fl g (line_addr l) (line_signed l) (line_total l)
              = Inl ZeroDivisionError \<and>
            update_metrics fl g (line_addr l) (line_signed l) (line_total l) = g) \<and>
         (0 < blocks_checked res \<longrightarrow>
            BLOCKS_SIGNED (metrics res) (line_addr l) = Some (of_nat (line_signed l)) \<and>
            SIGNING_PERCENTAGE (metrics res) (line_addr l) = Some (line_percentage l))"
proof -
  let ?n = "min (blocks_checked res) total_blocks"
  from monitor_cycle_InrD[OF c] l obtain counts where
    s: "summary res = map (summary_for fl counts ?n) addresses" and
    m: "metrics res = snd (summarize fl counts ?n addresses g)"
    by auto
  from s l obtain a where a: "a \<in> set addresses" "l = summary_for fl counts ?n a"
    by auto
  note b = summary_for_bounds[OF r, of counts ?n a]
  have z: "blocks_checked res = 0 \<Longrightarrow> metrics res = g"
    using m by (simp add: summarize_zero)
  have p: "0 < blocks_checked res \<Longrightarrow>
      BLOCKS_SIGNED (metrics res) a = Some (of_nat (line_signed l)) \<and>
      SIGNING_PERCENTAGE (metrics res) a = Some (line_percentage l)"
  proof -
    assume "0 < blocks_checked res"
    then have "?n > 0" by (simp add: total_blocks_def)
    from summarize_gauges[OF this, of fl counts addresses g a] a m show ?thesis by simp
  qed
  from a b z p show ?thesis
    by (auto simp: update_metrics_zero)
qed

lemma monitor_cycle_ok:
  assumes "latest_block ch = Inr (Some (JDict tp))"
    and "map_of tp ''result'' = Some (JDict rs)"
    and "map_of rs ''block'' = Some (JDict blk)"
    and "map_of blk ''header'' = Some (JDict hdd)"
    and "map_of hdd ''height'' = Some hv" and "py_int hv = Inr H"
    and b: "\<forall>h. \<exists>x. block_at ch h = Inr x"
    and v: "\<forall>h. \<exists>x. validator_set_at ch h = Inr x \<and> valset_shape_ok x"
  shows "\<exists>res. monitor_cycle fl ch addresses g = Inr res \<and>
               map line_addr (summary res) = addresses"
proof -
  have t: "tp \<noteq> []" using assms(2) by (cases tp) auto
  have h: "latest_height_of (JDict tp) = Inr H"
    by (simp add: latest_height_of_def assms(2-6))
  from check_blocks_ok[OF b v] obtain n counts where
    c: "check_blocks ch addresses [max 1 (H - int total_blocks + 1)..H] 0 (\<lambda>addr. 0)
          = Inr (n, counts)" by blast
  have "map line_addr (map (summary_for fl counts k) addresses) = addresses" for k
    by (induction addresses) (simp_all add: summary_for_def Let_def)
  then show ?thesis
    using summarize_lines[of fl counts "min n total_blocks" addresses g]
    by (simp add: monitor_cycle_def assms(1) t h c Let_def case_prod_beta comp_def)
qed

text \<open>
  C10. At the end of a monitoring cycle, every line of the summary has a signed count
  that is at most its total, which is at most the number of blocks checked in the
  window, and a percentage between 0 and 100. When no block was checked the printed
  percentage is 0 and the division in \<open>update_metrics\<close> raises inside its \<open>try\<close>: the
  handler keeps the error, and the gauges stay as they were. When blocks were checked,
  the gauges of the address hold the signed count and the percentage of the line. A
  cycle whose requests are answered (the latest block with a height, every height of
  the window with a block or none, every validator set with a dictionary or none)
  does end with a summary, of one line for every monitored address.
\<close>

theorem monitor_summary_bounds:
  "rounding_ok fl \<longrightarrow>
   (monitor_cycle fl ch addresses g = Inr res \<and> l \<in> set (summary res) \<longrightarrow>
      line_signed l \<le> line_total l \<and> line_total l \<le> blocks_checked res \<and>
      0 \<le> line_percentage l \<and> line_percentage l \<le> 100 \<and>
      (blocks_checked res = 0 \<longrightarrow>
         line_percentage l = 0 \<and> metrics res = g \<and>
         update_metrics_try fl g (line_addr l) (line_signed l) (line_total l)
           = Inl ZeroDivisionError \<and>
         update_metrics fl g (line_addr l) (line_signed l) (line_total l) = g) \<and>
      (0 < blocks_checked res \<longrightarrow>
         BLOCKS_SIGNED (metrics res) (line_addr l) = Some (of_nat (line_signed l)) \<and>
         SIGNING_PERCENTAGE (metrics res) (line_addr l) = Some (line_percentage l))) \<and>
   (latest_block ch = Inr (Some (JDict tp)) \<and>
    map_of tp ''result'' = Some (JDict rs) \<and>
    map_of rs ''block'' = Some (JDict blk) \<and>
    map_of blk ''header'' = Some (JDict hdd) \<and>
    map_of hdd ''height'' = Some hv \<and> py_int hv = Inr H \<and>
    (\<forall>h. \<exists>x. block_at ch h = Inr x) \<and>
    (\<forall>h. \<exists>x. validator_set_at ch h = Inr x \<and> valset_shape_ok x) \<longrightarrow>
      (\<exists>res'. monitor_cycle fl ch addresses g = Inr res' \<and>
              map line_addr (summary res') = addresses))"
proof (intro impI conjI)
  assume r: "rounding_ok fl"
  {
    assume a: "monitor_cycle fl ch addresses g = Inr res \<and> l \<in> set (summary res)"
    note t = monitor_cycle_bounds[OF r conjunct1[OF a] conjunct2[OF a]]
    from t show "line_signed l \<le> line_total l" by simp
    from t show "line_total l \<le> blocks_checked res" by simp
    from t show "0 \<le> line_percentage l" by simp
    from t show "line_percentage l \<le> 100" by simp
    {
      assume z: "blocks_checked res = 0"
      from t z show "line_percentage l = 0" by blast
      from t z show "metrics res = g" by blast
      from t z show "update_metrics_try fl g (line_addr l) (line_signed l) (line_total l)
           = Inl ZeroDivisionError" by blast
      from t z show "update_metrics fl g (line_addr l) (line_signed l) (line_total l) = g"
        by blast
    }
    {
      assume p: "0 < blocks_checked res"
      from t p show "BLOCKS_SIGNED (metrics res) (line_addr l) = Some (of_nat (line_signed l))"
        by blast
      from t p show "SIGNING_PERCENTAGE (metrics res) (line_addr l) = Some (line_percentage l)"
        by blast
    }
  }
  {
    assume a: "latest_block ch = Inr (Some (JDict tp)) \<and>
      map_of tp ''result'' = Some (JDict rs) \<and>
      map_of rs ''block'' = Some (JDict blk) \<and>
      map_of blk ''header'' = Some (JDict hdd) \<and>
      map_of hdd ''height'' = Some hv \<and> py_int hv = Inr H \<and>
      (\<forall>h. \<exists>x. block_at ch h = Inr x) \<and>
      (\<forall>h. \<exists>x. validator_set_at ch h = Inr x \<and> valset_shape_ok x)"
    then show "\<exists>res'. monitor_cycle fl ch addresses g = Inr res' \<and>
              map line_addr (summary res') = addresses"
      using monitor_cycle_ok[of ch tp rs blk hdd hv H fl addresses g] by blast
  }
qed

lemma identity_rounding_ok: "rounding_ok (\<lambda>x. x)"
  by (simp add: rounding_ok_def mono_def)

lemma small_chain_cycle:
  "(case monitor_cycle (\<lambda>x. x) small_chain [''V1'', ''V2''] no_gauges of
      Inl e \<Rightarrow> False
    | Inr res \<Rightarrow> blocks_checked res = 2 \<and> map line_signed (summary res) = [2, 0] \<and>
                 map line_total (summary res) = [2, 2] \<and>
                 map line_percentage (summary res) = [100, 0])"
  by code_simp

lemma dark_chain_cycle:
  "(case monitor_cycle (\<lambda>x. x) dark_chain [''V1'', ''V2''] no_gauges of
      Inl e \<Rightarrow> False
    | Inr res \<Rightarrow> blocks_checked res = 0 \<and> map line_signed (summary res) = [0, 0] \<and>
                 map line_total (summary res) = [0, 0] \<and>
                 map line_percentage (summary res) = [0, 0])"
  by code_simp

text \<open>A window of three heights of which one has no block: two blocks are checked, the
  first validator signed both, the second none. And a window in which no block can be
  fetched: nothing is checked, the percentages are 0.\<close>

theorem monitor_summary_bounds_witness:
  "rounding_ok (\<lambda>x. x) \<and>
   (\<exists>res l. monitor_cycle (\<lambda>x. x) small_chain [''V1'', ''V2''] no_gauges = Inr res \<and>
       map line_addr (summary res) = [''V1'', ''V2''] \<and> blocks_checked res = 2 \<and>
       l \<in> set (summary res) \<and> line_signed l = 2 \<and>
       line_signed l \<le> line_total l \<and> line_total l \<le> blocks_checked res \<and>
       0 \<le> line_percentage l \<and> line_percentage l \<le> 100 \<and>
       BLOCKS_SIGNED (metrics res) (line_addr l) = Some (of_nat (line_signed l)) \<and>
       SIGNING_PERCENTAGE (metrics res) (line_addr l) = Some (line_percentage l)) \<and>
   (\<exists>res l. monitor_cycle (\<lambda>x. x) dark_chain [''V1'', ''V2''] no_gauges = Inr res \<and>
       blocks_checked res = 0 \<and> l \<in> set (summary res) \<and>
       line_percentage l = 0 \<and> metrics res = no_gauges \<and>
       update_metrics (\<lambda>x. x) no_gauges (line_addr l) (line_signed l) (line_total l) = no_gauges)"
proof -
  note R = identity_rounding_ok
  note B = monitor_summary_bounds[THEN mp, OF R, THEN conjunct1, THEN mp, OF conjI]
  let ?A = "[''V1'', ''V2'']"
  obtain res where r: "monitor_cycle (\<lambda>x. x) small_chain ?A no_gauges = Inr res"
      "blocks_checked res = 2" "map line_signed (summary res) = [2, 0]"
    using small_chain_cycle by (cases "monitor_cycle (\<lambda>x. x) small_chain ?A no_gauges") auto
  have "\<exists>res'. monitor_cycle (\<lambda>x. x) small_chain ?A no_gauges = Inr res' \<and>
           map line_addr (summary res') = ?A"
    by (rule monitor_summary_bounds[where H = 3 and hv = "JStr ''3''"
          and hdd = "[(''height'', JStr ''3'')]" and blk = "signed_inner ''3''"
          and rs = "[(''block'', JDict (signed_inner ''3''))]"
          and tp = "[(''result'', JDict [(''block'', JDict (signed_inner ''3''))])]",
          THEN mp, OF R, THEN conjunct2, THEN mp])
       (simp add: small_chain_def signed_block_def signed_inner_def some_validators_def
          valset_shape_ok_def int_of_string_def strip_def is_space_def is_digit_def
          digits_val_def digit_val_def)
  with r(1) have a: "map line_addr (summary res) = ?A" by simp
  from r(3) obtain l where l: "l \<in> set (summary res)" "line_signed l = 2"
    by (cases "summary res") auto
  note b = B[OF r(1) l(1)]
  obtain res0 where z: "monitor_cycle (\<lambda>x. x) dark_chain ?A no_gauges = Inr res0"
      "blocks_checked res0 = 0" "map line_signed (summary res0) = [0, 0]"
    using dark_chain_cycle by (cases "monitor_cycle (\<lambda>x. x) dark_chain ?A no_gauges") auto
  from z(3) obtain l0 where l0: "l0 \<in> set (summary res0)"
    by (cases "summary res0") auto
  note c = B[OF z(1) l0]
  have s: "\<exists>res l. monitor_cycle (\<lambda>x. x) small_chain ?A no_gauges = Inr res \<and>
       map line_addr (summary res) = ?A \<and> blocks_checked res = 2 \<and>
       l \<in> set (summary res) \<and> line_signed l = 2 \<and>
       line_signed l \<le> line_total l \<and> line_total l \<le> blocks_checked res \<and>
       0 \<le> line_percentage l \<and> line_percentage l \<le> 100 \<and>
       BLOCKS_SIGNED (metrics res) (line_addr l) = Some (of_nat (line_signed l)) \<and>
       SIGNING_PERCENTAGE (metrics res) (line_addr l) = Some (line_percentage l)"
    using r a l b by (intro exI[of _ res] exI[of _ l]) simp
  have d: "\<exists>res l. monitor_cycle (\<lambda>x. x) dark_chain ?A no_gauges = Inr res \<and>
       blocks_checked res = 0 \<and> l \<in> set (summary res) \<and>
       line_percentage l = 0 \<and> metrics res = no_gauges \<and>
       update_metrics (\<lambda>x. x) no_gauges (line_addr l) (line_signed l) (line_total l) = no_gauges"
    using z l0 c by (intro exI[of _ res0] exI[of _ l0]) blast
  from R s d show ?thesis by blast
qed

end
